theory Spec2Isabelle
  imports Main "HOL-Library.AList"
begin

section \<open>JavaScript values\<close>

text \<open>
  Clock readings (\<^verbatim>\<open>Date.now()\<close>) are integers, in milliseconds; every reading the code
  takes is an argument of the function that models it, in the order the code takes them.
  A thrown value is \<^verbatim>\<open>new Error(message)\<close> or a \<^verbatim>\<open>TypeError\<close> of the runtime. A function
  that can throw returns \<open>Inl\<close> of the error, paired with the state as the throw leaves it.
  Numbers that the code only stores (sizes, coordinates, frame rates) are integers or naturals.
\<close>

datatype js_error = Error string | TypeError string

text \<open>Template literals print numbers in decimal.\<close>

definition digit_char :: "nat \<Rightarrow> char" where
  "digit_char d = ''0123456789'' ! d"

fun show_nat :: "nat \<Rightarrow> string" where
  "show_nat n = (if 10 \<le> n then show_nat (n div 10) @ [digit_char (n mod 10)] else [digit_char n])"

declare show_nat.simps [simp del]

definition show_int :: "int \<Rightarrow> string" where
  "show_int i = (if 0 \<le> i then show_nat (nat i) else CHR ''-'' # show_nat (nat (- i)))"

text \<open>\<^verbatim>\<open>a || d\<close> on a string (undefined and the empty string are falsy) and on a number
  (undefined and 0 are falsy).\<close>

definition or_str :: "string option \<Rightarrow> string \<Rightarrow> string" where
  "or_str a d = (case a of None \<Rightarrow> d | Some s \<Rightarrow> if s = [] then d else s)"

definition or_num :: "int option \<Rightarrow> int \<Rightarrow> int" where
  "or_num a d = (case a of None \<Rightarrow> d | Some n \<Rightarrow> if n = 0 then d else n)"

text \<open>\<^verbatim>\<open>String.prototype.startsWith\<close> and \<^verbatim>\<open>String.prototype.includes\<close>.\<close>

fun startsWith :: "string \<Rightarrow> string \<Rightarrow> bool" where
  "startsWith s [] = True"
| "startsWith [] (p # ps) = False"
| "startsWith (c # cs) (p # ps) = (c = p \<and> startsWith cs ps)"

fun str_includes :: "string \<Rightarrow> string \<Rightarrow> bool" where
  "str_includes [] p = (p = [])"
| "str_includes (c # cs) p = (startsWith (c # cs) p \<or> str_includes cs p)"

section \<open>Recording sessions (RecordingManager)\<close>

record settings =
  quality :: string
  fps :: int
  autoZoom :: bool
  zoomLevel :: int
  zoomDuration :: int

text \<open>\<^verbatim>\<open>options.settings\<close>, spread over the defaults: the fields it defines.\<close>

record settings_patch =
  sp_quality :: "string option"
  sp_fps :: "int option"
  sp_autoZoom :: "bool option"
  sp_zoomLevel :: "int option"
  sp_zoomDuration :: "int option"

record start_options =
  o_tabId :: int
  o_streamId :: string
  o_quality :: "string option"
  o_fps :: "int option"
  o_autoZoom :: "bool option"
  o_zoomLevel :: "int option"
  o_zoomDuration :: "int option"
  o_settings :: "settings_patch option"

definition spread_settings :: "settings \<Rightarrow> settings_patch option \<Rightarrow> settings" where
  "spread_settings d po =
     (case po of
        None \<Rightarrow> d
      | Some p \<Rightarrow>
          \<lparr> quality = (case sp_quality p of None \<Rightarrow> quality d | Some v \<Rightarrow> v),
            fps = (case sp_fps p of None \<Rightarrow> fps d | Some v \<Rightarrow> v),
            autoZoom = (case sp_autoZoom p of None \<Rightarrow> autoZoom d | Some v \<Rightarrow> v),
            zoomLevel = (case sp_zoomLevel p of None \<Rightarrow> zoomLevel d | Some v \<Rightarrow> v),
            zoomDuration = (case sp_zoomDuration p of None \<Rightarrow> zoomDuration d | Some v \<Rightarrow> v) \<rparr>)"

definition session_settings :: "start_options \<Rightarrow> settings" where
  "session_settings opts =
     spread_settings
       \<lparr> quality = or_str (o_quality opts) ''high'',
         fps = or_num (o_fps opts) 30,
         autoZoom = (o_autoZoom opts \<noteq> Some False),
         zoomLevel = or_num (o_zoomLevel opts) 2,
         zoomDuration = or_num (o_zoomDuration opts) 300 \<rparr>
       (o_settings opts)"

text \<open>A cursor event as the content script sends it (\<open>ev_timestamp\<close> is the content script's
  own clock reading), and as the manager records it: the sent fields with \<open>timestamp\<close>
  overwritten, and \<open>relativeTime\<close> added.\<close>

record event_data =
  ev_sessionId :: string
  ev_type :: string
  ev_x :: int
  ev_y :: int
  ev_timestamp :: int

record cursor_event =
  ce_data :: event_data
  ce_relativeTime :: int

text \<open>A Blob: its bytes and MIME type; \<^verbatim>\<open>blob.size\<close> is the number of bytes.\<close>

record blob =
  blob_bytes :: "nat list"
  blob_type :: string

definition blob_size :: "blob \<Rightarrow> int" where
  "blob_size b = int (length (blob_bytes b))"

datatype session_state = Starting | Recording | Paused | Stopping | Stopped | ErrorState

record session =
  s_id :: string
  s_tabId :: int
  s_streamId :: string
  s_startTime :: int
  s_state :: session_state
  s_cursorEvents :: "cursor_event list"
  s_videoBlobs :: "blob list"
  s_settings :: settings
  s_endTime :: "int option"
  s_pauseTime :: "int option"
  s_totalPauseDuration :: "int option"

record recording_manager =
  activeSessions :: "string \<rightharpoonup> session"
  recordingId :: nat

definition new_manager :: recording_manager where
  "new_manager = \<lparr> activeSessions = Map.empty, recordingId = 0 \<rparr>"

subsection \<open>Collaborators\<close>

text \<open>
  What the content script and the browser answer is an input of the model.
  \<open>initializeMediaRecorder\<close>: the 15 second timer fires first, \<^verbatim>\<open>sendMessage\<close> throws, the
  callback runs with \<^verbatim>\<open>chrome.runtime.lastError\<close> set, or with a response that reports
  success or not (with or without an error text).
  A message sent without a callback either goes out or throws at the call.
\<close>

datatype init_outcome =
    InitTimeout
  | InitSendThrew string
  | InitLastError string
  | InitAck
  | InitNack "string option"

datatype send_outcome = Sent | SendThrew js_error

definition initializeMediaRecorder :: "session \<Rightarrow> init_outcome \<Rightarrow> js_error option" where
  "initializeMediaRecorder s out =
     (case out of
        InitTimeout \<Rightarrow> Some (Error ''Media recorder initialization timeout after 15 seconds'')
      | InitSendThrew msg \<Rightarrow> Some (Error (''Failed to communicate with content script: '' @ msg))
      | InitLastError msg \<Rightarrow> Some (Error (''Content script communication failed: '' @ msg))
      | InitAck \<Rightarrow> None
      | InitNack e \<Rightarrow> Some (Error (or_str e ''Content script failed to initialize media recorder'')))"

definition startCursorTracking :: "session \<Rightarrow> send_outcome \<Rightarrow> js_error option" where
  "startCursorTracking s out = (case out of Sent \<Rightarrow> None | SendThrew e \<Rightarrow> Some e)"

subsection \<open>startRecording\<close>

definition new_session_id :: "recording_manager \<Rightarrow> int \<Rightarrow> string" where
  "new_session_id m t_id =
     ''session_'' @ show_nat (recordingId m + 1) @ ''_'' @ show_int t_id"

definition startRecording ::
  "recording_manager \<Rightarrow> start_options \<Rightarrow> int \<Rightarrow> int \<Rightarrow> init_outcome \<Rightarrow> send_outcome
     \<Rightarrow> (js_error + session) \<times> recording_manager" where
  "startRecording m opts t_id t_start init track =
     (let sessionId = new_session_id m t_id;
          session = \<lparr> s_id = sessionId, s_tabId = o_tabId opts, s_streamId = o_streamId opts,
                      s_startTime = t_start, s_state = Starting, s_cursorEvents = [],
                      s_videoBlobs = [], s_settings = session_settings opts,
                      s_endTime = None, s_pauseTime = None, s_totalPauseDuration = None \<rparr>;
          m1 = m \<lparr> recordingId := recordingId m + 1,
                   activeSessions := (activeSessions m)(sessionId \<mapsto> session) \<rparr>
      in case initializeMediaRecorder session init of
           Some e \<Rightarrow> (Inl e, m1 \<lparr> activeSessions := (activeSessions m1)(sessionId := None) \<rparr>)
         | None \<Rightarrow>
             (case startCursorTracking session track of
                Some e \<Rightarrow> (Inl e, m1 \<lparr> activeSessions := (activeSessions m1)(sessionId := None) \<rparr>)
              | None \<Rightarrow>
                  (let session' = session \<lparr> s_state := Recording \<rparr>
                   in (Inr session',
                       m1 \<lparr> activeSessions := (activeSessions m1)(sessionId \<mapsto> session') \<rparr>))))"

subsection \<open>pauseRecording, resumeRecording, addCursorEvent\<close>

text \<open>The result object \<^verbatim>\<open>{ success: true, state: ... }\<close>.\<close>

record state_result =
  sr_success :: bool
  sr_state :: session_state

text \<open>The messages \<^verbatim>\<open>PAUSE_RECORDING\<close> and \<^verbatim>\<open>RESUME_RECORDING\<close> go to the tab of a session
  that was started through it; they change nothing in the manager.\<close>

definition pauseRecording ::
  "recording_manager \<Rightarrow> string \<Rightarrow> int \<Rightarrow> (js_error + state_result) \<times> recording_manager" where
  "pauseRecording m sessionId now =
     (case activeSessions m sessionId of
        None \<Rightarrow> (Inl (Error ''Invalid session state for pause''), m)
      | Some session \<Rightarrow>
          if s_state session \<noteq> Recording
          then (Inl (Error ''Invalid session state for pause''), m)
          else (Inr \<lparr> sr_success = True, sr_state = Paused \<rparr>,
                m \<lparr> activeSessions := (activeSessions m)
                      (sessionId \<mapsto> session \<lparr> s_state := Paused, s_pauseTime := Some now \<rparr>) \<rparr>))"

text \<open>\<^verbatim>\<open>Date.now() - session.pauseTime\<close>: a session reaches \<^verbatim>\<open>'paused'\<close> only through
  \<open>pauseRecording\<close>, which sets \<^verbatim>\<open>pauseTime\<close>; without one the difference is NaN and so is
  the sum, modelled as an undefined total.\<close>

definition resumeRecording ::
  "recording_manager \<Rightarrow> string \<Rightarrow> int \<Rightarrow> (js_error + state_result) \<times> recording_manager" where
  "resumeRecording m sessionId now =
     (case activeSessions m sessionId of
        None \<Rightarrow> (Inl (Error ''Invalid session state for resume''), m)
      | Some session \<Rightarrow>
          if s_state session \<noteq> Paused
          then (Inl (Error ''Invalid session state for resume''), m)
          else
            (let total = (case s_pauseTime session of
                            None \<Rightarrow> None
                          | Some pt \<Rightarrow> Some (or_num (s_totalPauseDuration session) 0 + (now - pt)))
             in (Inr \<lparr> sr_success = True, sr_state = Recording \<rparr>,
                 m \<lparr> activeSessions := (activeSessions m)
                       (sessionId \<mapsto> session \<lparr> s_state := Recording,
                                                 s_totalPauseDuration := total \<rparr>) \<rparr>)))"

text \<open>\<open>addCursorEvent\<close> reads the clock twice: \<open>t1\<close> for \<^verbatim>\<open>timestamp\<close>, \<open>t2\<close> for
  \<^verbatim>\<open>relativeTime\<close>. It answers \<^verbatim>\<open>{ success: false, error: 'Session not found' }\<close> for an
  unknown session and \<^verbatim>\<open>{ success: true }\<close> otherwise; it never throws.\<close>

definition addCursorEvent ::
  "recording_manager \<Rightarrow> event_data \<Rightarrow> int \<Rightarrow> int \<Rightarrow> (string + unit) \<times> recording_manager" where
  "addCursorEvent m eventData t1 t2 =
     (case activeSessions m (ev_sessionId eventData) of
        None \<Rightarrow> (Inl ''Session not found'', m)
      | Some session \<Rightarrow>
          (let event = \<lparr> ce_data = eventData \<lparr> ev_timestamp := t1 - s_startTime session \<rparr>,
                         ce_relativeTime =
                           t2 - s_startTime session - or_num (s_totalPauseDuration session) 0 \<rparr>
           in (Inr (),
               m \<lparr> activeSessions := (activeSessions m)
                     (ev_sessionId eventData \<mapsto>
                        session \<lparr> s_cursorEvents := s_cursorEvents session @ [event] \<rparr>) \<rparr>)))"

section \<open>The storage record store (chrome.storage.local)\<close>

record video_segment =
  seg_id :: string
  seg_startTime :: int
  seg_duration :: int
  seg_blobId :: string
  seg_size :: int
  seg_type :: string

text \<open>A duration is a difference of clock readings; where an operand is undefined the
  JavaScript value is NaN, modelled by \<open>None\<close>.\<close>

record timeline =
  tl_duration :: "int option"
  tl_cursorEvents :: "cursor_event list"
  tl_videoSegments :: "video_segment list"

record export_info =
  ex_formats :: "string list"
  ex_quality :: string
  ex_resolution :: string

record project =
  p_id :: string
  p_name :: string
  p_createdAt :: "int option"
  p_updatedAt :: "int option"
  p_duration :: "int option"
  p_settings :: settings
  p_timeline :: timeline
  p_export :: export_info
  p_thumbnail :: "string option"
  p_savedAt :: "int option"
  p_lastAccessed :: "int option"

text \<open>A stored blob: \<open>br_data\<close> stands for the base64 data URL of the bytes.\<close>

record blob_record =
  br_data :: "nat list"
  br_type :: string
  br_size :: int
  br_createdAt :: "int option"

record project_summary =
  ps_id :: string
  ps_name :: string
  ps_createdAt :: "int option"
  ps_updatedAt :: "int option"
  ps_duration :: "int option"
  ps_thumbnail :: "string option"

record cleanup_stats =
  totalCleanups :: nat
  totalItemsFreed :: nat
  lastCleanup :: "int option"

text \<open>The legacy recorder (CursorFlowRecorder) stores whole recordings.\<close>

record capture_settings =
  cap_width :: int
  cap_height :: int
  cap_fps :: int

record legacy_event =
  le_data :: event_data
  le_sessionId :: string
  le_timestamp :: int

record recording =
  rc_id :: string
  rc_timestamp :: int
  rc_settings :: capture_settings
  rc_duration :: int
  rc_cursorEvents :: "legacy_event list"
  rc_videoData :: "nat list option"
  rc_size :: int
  rc_mimeType :: string
  rc_error :: "string option"

record recording_summary =
  rs_id :: string
  rs_timestamp :: int
  rs_duration :: int
  rs_size :: int
  rs_settings :: capture_settings

text \<open>
  The values the code stores, by shape. \<open>SNull\<close> is a stored \<^verbatim>\<open>null\<close>, \<open>SOther\<close> any
  other JSON value (temporary and cached data, settings, flags). The store is an association list with distinct keys, in
  the order in which \<^verbatim>\<open>chrome.storage.local.get(null)\<close> enumerates them; its calls are taken
  to succeed (\<^verbatim>\<open>chrome.runtime.lastError\<close> stays unset), except where a function takes the
  outcome as an argument.
\<close>

datatype stored =
    SProject project
  | SBlob blob_record
  | SRecentProjects "project_summary list"
  | SRecording recording
  | SRecordingsList "recording_summary list"
  | SCleanupStats cleanup_stats
  | SNumber int
  | SNull
  | SOther

type_synonym storage = "(string \<times> stored) list"

definition storage_get :: "storage \<Rightarrow> string \<Rightarrow> stored option" where
  "storage_get st k = map_of st k"

definition storage_set :: "storage \<Rightarrow> string \<Rightarrow> stored \<Rightarrow> storage" where
  "storage_set st k v = AList.update k v st"

definition storage_remove :: "storage \<Rightarrow> string list \<Rightarrow> storage" where
  "storage_remove st ks = filter (\<lambda>(k, v). k \<notin> set ks) st"

definition storage_keys :: "storage \<Rightarrow> string list" where
  "storage_keys st = map fst st"

subsection \<open>stopRecording and generateProjectData\<close>

datatype stop_outcome = StopAck "blob list option" | StopNack "string option"

definition stopMediaRecorder :: "session \<Rightarrow> stop_outcome \<Rightarrow> js_error + session" where
  "stopMediaRecorder s out =
     (case out of
        StopAck blobs \<Rightarrow> Inr (s \<lparr> s_videoBlobs := (case blobs of None \<Rightarrow> [] | Some bs \<Rightarrow> bs) \<rparr>)
      | StopNack e \<Rightarrow> Inl (Error (or_str e ''Failed to stop media recorder'')))"

definition stopCursorTracking :: "session \<Rightarrow> send_outcome \<Rightarrow> js_error option" where
  "stopCursorTracking s out = (case out of Sent \<Rightarrow> None | SendThrew e \<Rightarrow> Some e)"

definition video_segment_of :: "string \<Rightarrow> nat \<times> blob \<Rightarrow> video_segment" where
  "video_segment_of sessionId ib =
     \<lparr> seg_id = ''segment_'' @ show_nat (fst ib),
       seg_startTime = int (fst ib) * 1000,
       seg_duration = 1000,
       seg_blobId = sessionId @ ''_'' @ show_nat (fst ib),
       seg_size = blob_size (snd ib),
       seg_type = blob_type (snd ib) \<rparr>"

definition session_span :: "session \<Rightarrow> int option" where
  "session_span s = (case s_endTime s of None \<Rightarrow> None | Some e \<Rightarrow> Some (e - s_startTime s))"

text \<open>The project object \<open>generateProjectData\<close> builds; \<open>date_str\<close> is
  \<^verbatim>\<open>new Date().toLocaleString()\<close>.\<close>

definition project_of_session :: "session \<Rightarrow> string \<Rightarrow> int \<Rightarrow> project" where
  "project_of_session s date_str t_updated =
     \<lparr> p_id = ''project_'' @ s_id s,
       p_name = ''Recording '' @ date_str,
       p_createdAt = Some (s_startTime s),
       p_updatedAt = Some t_updated,
       p_duration = session_span s,
       p_settings = s_settings s,
       p_timeline =
         \<lparr> tl_duration = session_span s,
           tl_cursorEvents = s_cursorEvents s,
           tl_videoSegments = map (video_segment_of (s_id s)) (enumerate 0 (s_videoBlobs s)) \<rparr>,
       p_export = \<lparr> ex_formats = [''mp4'', ''webm''], ex_quality = quality (s_settings s),
                    ex_resolution = ''1920x1080'' \<rparr>,
       p_thumbnail = None, p_savedAt = None, p_lastAccessed = None \<rparr>"

text \<open>\<open>storeBlobData\<close> for the blobs in turn: \<open>io i\<close> is the failure of the file reader or
  of the store on blob \<open>i\<close> (if any), \<open>clk i\<close> the clock reading of its \<^verbatim>\<open>createdAt\<close>.\<close>

fun storeBlobs ::
  "string \<Rightarrow> (nat \<Rightarrow> js_error option) \<Rightarrow> (nat \<Rightarrow> int) \<Rightarrow> (nat \<times> blob) list \<Rightarrow> storage
     \<Rightarrow> js_error option \<times> storage" where
  "storeBlobs sessionId io clk [] st = (None, st)"
| "storeBlobs sessionId io clk (ib # rest) st =
     (case io (fst ib) of
        Some e \<Rightarrow> (Some e, st)
      | None \<Rightarrow>
          storeBlobs sessionId io clk rest
            (storage_set st (''blob_'' @ sessionId @ ''_'' @ show_nat (fst ib))
               (SBlob \<lparr> br_data = blob_bytes (snd ib), br_type = blob_type (snd ib),
                        br_size = blob_size (snd ib), br_createdAt = Some (clk (fst ib)) \<rparr>)))"

definition generateProjectData ::
  "session \<Rightarrow> string \<Rightarrow> int \<Rightarrow> (nat \<Rightarrow> js_error option) \<Rightarrow> (nat \<Rightarrow> int) \<Rightarrow> storage
     \<Rightarrow> (js_error + project) \<times> storage" where
  "generateProjectData s date_str t_updated io clk st =
     (case storeBlobs (s_id s) io clk (enumerate 0 (s_videoBlobs s)) st of
        (Some e, st') \<Rightarrow> (Inl e, st')
      | (None, st') \<Rightarrow> (Inr (project_of_session s date_str t_updated), st'))"

record stop_result =
  st_success :: bool
  st_sessionId :: string
  st_duration :: int
  st_projectData :: project

text \<open>The arguments after the session id: the clock reading of \<^verbatim>\<open>endTime\<close>, the answers of
  the collaborators, and the inputs of \<open>generateProjectData\<close>. On a throw the session stays
  in the registry, in state \<^verbatim>\<open>'error'\<close>.\<close>

definition stopRecording ::
  "recording_manager \<Rightarrow> storage \<Rightarrow> string \<Rightarrow> int \<Rightarrow> stop_outcome \<Rightarrow> send_outcome \<Rightarrow> string
     \<Rightarrow> int \<Rightarrow> (nat \<Rightarrow> js_error option) \<Rightarrow> (nat \<Rightarrow> int)
     \<Rightarrow> (js_error + stop_result) \<times> recording_manager \<times> storage" where
  "stopRecording m st sessionId now stop_out track_out date_str t_updated io clk =
     (case activeSessions m sessionId of
        None \<Rightarrow> (Inl (Error (''Recording session not found: '' @ sessionId)), m, st)
      | Some session \<Rightarrow>
          (let s1 = session \<lparr> s_state := Stopping, s_endTime := Some now \<rparr>;
               failed = (\<lambda>s. m \<lparr> activeSessions := (activeSessions m)
                                   (sessionId \<mapsto> s \<lparr> s_state := ErrorState \<rparr>) \<rparr>)
           in case stopMediaRecorder s1 stop_out of
                Inl e \<Rightarrow> (Inl e, failed s1, st)
              | Inr s2 \<Rightarrow>
                  (case stopCursorTracking s2 track_out of
                     Some e \<Rightarrow> (Inl e, failed s2, st)
                   | None \<Rightarrow>
                       (case generateProjectData s2 date_str t_updated io clk st of
                          (Inl e, st') \<Rightarrow> (Inl e, failed s2, st')
                        | (Inr projectData, st') \<Rightarrow>
                            (Inr \<lparr> st_success = True, st_sessionId = sessionId,
                                   st_duration = now - s_startTime s2,
                                   st_projectData = projectData \<rparr>,
                             m \<lparr> activeSessions := (activeSessions m)(sessionId := None) \<rparr>,
                             st')))))"

section \<open>Projects (ProjectManager)\<close>

definition maxProjects :: nat where
  "maxProjects = 100"

definition maxProjectAge :: int where
  "maxProjectAge = 30 * 24 * 60 * 60 * 1000"

text \<open>Under a \<^verbatim>\<open>project_\<close> key the store holds project records; a value of another shape
  there has no \<^verbatim>\<open>id\<close>. \<^verbatim>\<open>result.recent_projects || []\<close> is the stored list, or the empty
  one.\<close>

definition as_project :: "stored \<Rightarrow> project option" where
  "as_project v = (case v of SProject p \<Rightarrow> Some p | _ \<Rightarrow> None)"

definition recent_projects_of :: "storage \<Rightarrow> project_summary list" where
  "recent_projects_of st =
     (case storage_get st ''recent_projects'' of Some (SRecentProjects l) \<Rightarrow> l | _ \<Rightarrow> [])"

definition summary_of :: "project \<Rightarrow> project_summary" where
  "summary_of projectData =
     \<lparr> ps_id = p_id projectData, ps_name = p_name projectData,
       ps_createdAt = p_createdAt projectData, ps_updatedAt = p_updatedAt projectData,
       ps_duration = p_duration projectData,
       ps_thumbnail = (case p_thumbnail projectData of
                         None \<Rightarrow> None
                       | Some t \<Rightarrow> if t = [] then None else Some t) \<rparr>"

definition updated_recent_list :: "project_summary list \<Rightarrow> project \<Rightarrow> project_summary list" where
  "updated_recent_list recentProjects projectData =
     take 20 (summary_of projectData #
              filter (\<lambda>p. ps_id p \<noteq> p_id projectData) recentProjects)"

definition updateRecentProjects :: "storage \<Rightarrow> project \<Rightarrow> storage" where
  "updateRecentProjects st projectData =
     storage_set st ''recent_projects''
       (SRecentProjects (updated_recent_list (recent_projects_of st) projectData))"

definition removeFromRecentProjects :: "storage \<Rightarrow> string \<Rightarrow> storage" where
  "removeFromRecentProjects st projectId =
     storage_set st ''recent_projects''
       (SRecentProjects (filter (\<lambda>p. ps_id p \<noteq> projectId) (recent_projects_of st)))"

definition deleteProjectBlobs :: "storage \<Rightarrow> string \<Rightarrow> storage" where
  "deleteProjectBlobs st projectId =
     (let blobKeys = filter (\<lambda>key. startsWith key ''blob_'' \<and> str_includes key projectId)
                       (storage_keys st)
      in if blobKeys \<noteq> [] then storage_remove st blobKeys else st)"

definition deleteProject :: "storage \<Rightarrow> string \<Rightarrow> storage" where
  "deleteProject st projectId =
     removeFromRecentProjects
       (deleteProjectBlobs (storage_remove st [''project_'' @ projectId]) projectId)
       projectId"

definition stored_projects :: "storage \<Rightarrow> project list" where
  "stored_projects st =
     List.map_filter
       (\<lambda>kv. if startsWith (fst kv) ''project_''
             then (case as_project (snd kv) of
                     Some p \<Rightarrow> if p_id p \<noteq> [] then Some p else None
                   | None \<Rightarrow> None)
             else None)
       st"

text \<open>\<open>getAllProjects\<close>: \<open>sortBy\<close> reads the sort field, \<^verbatim>\<open>a[sortBy] || 0\<close>;
  \<^verbatim>\<open>Array.prototype.sort\<close> is stable.\<close>

definition getAllProjects ::
  "storage \<Rightarrow> (project \<Rightarrow> int option) \<Rightarrow> bool \<Rightarrow> nat \<Rightarrow> project list" where
  "getAllProjects st sortBy ascending limit =
     take limit
       (if ascending then sort_key (\<lambda>p. or_num (sortBy p) 0) (stored_projects st)
        else sort_key (\<lambda>p. - or_num (sortBy p) 0) (stored_projects st))"

text \<open>\<^verbatim>\<open>(now - (project.updatedAt || project.createdAt)) > this.maxProjectAge\<close>; with neither
  time defined the difference is NaN and the comparison false.\<close>

definition project_is_old :: "int \<Rightarrow> project \<Rightarrow> bool" where
  "project_is_old now p =
     (case (case p_updatedAt p of
              Some u \<Rightarrow> if u \<noteq> 0 then Some u else p_createdAt p
            | None \<Rightarrow> p_createdAt p) of
        None \<Rightarrow> False
      | Some t \<Rightarrow> now - t > maxProjectAge)"

definition cleanupOldProjects :: "storage \<Rightarrow> int \<Rightarrow> storage" where
  "cleanupOldProjects st now =
     (let projects = getAllProjects st p_updatedAt True 50;
          oldProjects = filter (project_is_old now) projects;
          excessProjects = drop maxProjects projects;
          projectsToDelete = oldProjects @ excessProjects
      in foldl deleteProject st (map p_id projectsToDelete))"

definition saveProject ::
  "storage \<Rightarrow> project \<Rightarrow> int \<Rightarrow> int \<Rightarrow> (js_error + string) \<times> storage" where
  "saveProject st projectData t_saved t_cleanup =
     (if p_id projectData = [] then (Inl (Error ''Invalid project data''), st)
      else
        (let st1 = storage_set st (''project_'' @ p_id projectData)
                     (SProject (projectData \<lparr> p_savedAt := Some t_saved \<rparr>));
             st2 = updateRecentProjects st1 projectData;
             st3 = cleanupOldProjects st2 t_cleanup
         in (Inr (p_id projectData), st3)))"

definition loadProject :: "storage \<Rightarrow> string \<Rightarrow> int \<Rightarrow> (js_error + project) \<times> storage" where
  "loadProject st projectId now =
     (case storage_get st (''project_'' @ projectId) of
        Some (SProject project) \<Rightarrow>
          (let project' = project \<lparr> p_lastAccessed := Some now \<rparr>
           in (Inr project', storage_set st (''project_'' @ projectId) (SProject project')))
      | _ \<Rightarrow> (Inl (Error ''Project not found''), st))"

text \<open>The service worker's \<open>stopRecording\<close>: stop the session, then save the project the
  manager built (\<open>t_saved\<close> and \<open>t_cleanup\<close> are the clock readings of \<open>saveProject\<close>).\<close>

definition sw_stopRecording ::
  "recording_manager \<Rightarrow> storage \<Rightarrow> string \<Rightarrow> int \<Rightarrow> stop_outcome \<Rightarrow> send_outcome \<Rightarrow> string
     \<Rightarrow> int \<Rightarrow> (nat \<Rightarrow> js_error option) \<Rightarrow> (nat \<Rightarrow> int) \<Rightarrow> int \<Rightarrow> int
     \<Rightarrow> (js_error + stop_result) \<times> recording_manager \<times> storage" where
  "sw_stopRecording m st sessionId now stop_out track_out date_str t_updated io clk
       t_saved t_cleanup =
     (case stopRecording m st sessionId now stop_out track_out date_str t_updated io clk of
        (Inl e, m', st') \<Rightarrow> (Inl e, m', st')
      | (Inr result, m', st') \<Rightarrow>
          (case saveProject st' (st_projectData result) t_saved t_cleanup of
             (Inl e, st'') \<Rightarrow> (Inl e, m', st'')
           | (Inr projectId, st'') \<Rightarrow> (Inr result, m', st'')))"

section \<open>Storage maintenance (StorageManager)\<close>

text \<open>The browser: \<^verbatim>\<open>chrome.storage.local.getBytesInUse(null)\<close> as a function of the
  contents, and \<^verbatim>\<open>chrome.storage.local.QUOTA_BYTES\<close>.\<close>

record browser =
  getBytesInUse :: "storage \<Rightarrow> int"
  QUOTA_BYTES :: "int option"

definition maxStorageUsage :: int where
  "maxStorageUsage = 80"

text \<open>\<^verbatim>\<open>Math.round((bytesInUse / quota) * 100)\<close>, rounding halves up, for a byte count
  that is not negative and a positive quota (\<^verbatim>\<open>QUOTA_BYTES || 10 MB\<close>).\<close>

definition usage_percentage :: "browser \<Rightarrow> storage \<Rightarrow> int" where
  "usage_percentage br st =
     (let quota = or_num (QUOTA_BYTES br) (10 * 1024 * 1024)
      in (200 * getBytesInUse br st + quota) div (2 * quota))"

text \<open>\<^verbatim>\<open>String.prototype.replace\<close> with a string pattern: the first occurrence.\<close>

fun str_replace :: "string \<Rightarrow> string \<Rightarrow> string \<Rightarrow> string" where
  "str_replace [] pat rep = (if pat = [] then rep else [])"
| "str_replace (c # cs) pat rep =
     (if startsWith (c # cs) pat then rep @ drop (length pat) (c # cs)
      else c # str_replace cs pat rep)"

definition getProjectIdsFromData :: "storage \<Rightarrow> string list" where
  "getProjectIdsFromData allData =
     List.map_filter
       (\<lambda>kv. if startsWith (fst kv) ''project_''
             then (case as_project (snd kv) of
                     Some p \<Rightarrow> if p_id p \<noteq> [] then Some (p_id p) else None
                   | None \<Rightarrow> None)
             else None)
       allData"

definition isReferenced :: "string list \<Rightarrow> string \<Rightarrow> bool" where
  "isReferenced projectIds blobKey =
     list_ex (\<lambda>projectId. str_includes (str_replace blobKey ''blob_'' []) projectId) projectIds"

text \<open>\<^verbatim>\<open>blobData.createdAt && (Date.now() - blobData.createdAt) > 30 days\<close>; \<open>now\<close> is the
  clock reading taken for this blob. A stored \<^verbatim>\<open>null\<close> has no properties: reading its
  \<^verbatim>\<open>createdAt\<close> throws. Any other value without a \<^verbatim>\<open>createdAt\<close> is not old.\<close>

definition blob_is_old :: "storage \<Rightarrow> int \<Rightarrow> string \<Rightarrow> js_error + bool" where
  "blob_is_old allData now blobKey =
     (case storage_get allData blobKey of
        Some SNull \<Rightarrow> Inl (TypeError ''Cannot read properties of null (reading 'createdAt')'')
      | Some (SBlob b) \<Rightarrow>
          Inr (case br_createdAt b of
                 None \<Rightarrow> False
               | Some c \<Rightarrow> c \<noteq> 0 \<and> now - c > 30 * 24 * 60 * 60 * 1000)
      | _ \<Rightarrow> Inr False)"

definition updateCleanupStats :: "storage \<Rightarrow> nat \<Rightarrow> int \<Rightarrow> storage" where
  "updateCleanupStats st itemsFreed now =
     (let currentStats = (case storage_get st ''cleanup_stats'' of
                            Some (SCleanupStats c) \<Rightarrow> c
                          | _ \<Rightarrow> \<lparr> totalCleanups = 0, totalItemsFreed = 0, lastCleanup = None \<rparr>)
      in storage_set st ''cleanup_stats''
           (SCleanupStats \<lparr> totalCleanups = totalCleanups currentStats + 1,
                            totalItemsFreed = totalItemsFreed currentStats + itemsFreed,
                            lastCleanup = Some now \<rparr>))"

text \<open>The keys \<open>cleanupStorage\<close> works on are computed from the snapshot \<open>allData\<close> taken
  at the start; \<open>now_at key\<close> is the clock reading when the loop reaches \<open>key\<close>.\<close>

definition tempKeys :: "storage \<Rightarrow> string list" where
  "tempKeys allData =
     filter (\<lambda>key. startsWith key ''temp_'' \<or> startsWith key ''cache_'') (storage_keys allData)"

definition blobKeys :: "storage \<Rightarrow> string list" where
  "blobKeys allData = filter (\<lambda>key. startsWith key ''blob_'') (storage_keys allData)"

text \<open>The loop over the blob keys: a key that is not referenced goes to the orphaned
  blobs, a referenced one that is old to the old blobs; the result is the two lists, or the
  error thrown on the way.\<close>

fun classifyBlobs ::
  "storage \<Rightarrow> (string \<Rightarrow> int) \<Rightarrow> string list \<Rightarrow> js_error + string list \<times> string list" where
  "classifyBlobs allData now_at [] = Inr ([], [])"
| "classifyBlobs allData now_at (blobKey # rest) =
     (if \<not> isReferenced (getProjectIdsFromData allData) blobKey
      then (case classifyBlobs allData now_at rest of
              Inl e \<Rightarrow> Inl e
            | Inr r \<Rightarrow> Inr (blobKey # fst r, snd r))
      else (case blob_is_old allData (now_at blobKey) blobKey of
              Inl e \<Rightarrow> Inl e
            | Inr is_old \<Rightarrow>
                (case classifyBlobs allData now_at rest of
                   Inl e \<Rightarrow> Inl e
                 | Inr r \<Rightarrow> Inr (fst r, if is_old then blobKey # snd r else snd r))))"

text \<open>\<open>cleanupStorage\<close> removes the temporary keys, runs the loop, removes the orphaned
  blobs and, if usage is still above the threshold, the first half of the old blobs, and
  writes the statistics. An error thrown by the loop is caught at the end of the function
  and logged: the temporary keys are gone, nothing else is removed or written.\<close>

definition cleanupStorage :: "browser \<Rightarrow> storage \<Rightarrow> (string \<Rightarrow> int) \<Rightarrow> int \<Rightarrow> storage" where
  "cleanupStorage br allData now_at t_stats =
     (let st1 = (if tempKeys allData \<noteq> [] then storage_remove allData (tempKeys allData)
                 else allData)
      in case classifyBlobs allData now_at (blobKeys allData) of
           Inl e \<Rightarrow> st1
         | Inr r \<Rightarrow>
             (let orphaned = fst r;
                  old = snd r;
                  st2 = (if orphaned \<noteq> [] then storage_remove st1 orphaned else st1);
                  blobsToRemove =
                    (if usage_percentage br st2 > maxStorageUsage
                     then take ((length old + 1) div 2) old
                     else []);
                  st3 = (if blobsToRemove \<noteq> [] then storage_remove st2 blobsToRemove else st2);
                  freedSpace = length (tempKeys allData) + length orphaned + length blobsToRemove
              in updateCleanupStats st3 freedSpace t_stats))"


section \<open>The single-session recorder (CursorFlowRecorder)\<close>

text \<open>The methods of this class carry the prefix \<open>cf_\<close>, since some share their names
  with methods of the manager. A received chunk is kept as the Blob it came as, or as a
  \<^verbatim>\<open>Uint8Array\<close> over the received buffer. \<open>DataNone\<close> is a message without data.\<close>

datatype chunk = BlobChunk blob | BufferChunk "nat list"

datatype chunk_data = DataBlob blob | DataBuffer "nat list" | DataNone

record recorder_session =
  cs_id :: string
  cs_startTime :: int
  cs_settings :: capture_settings

record recorder =
  isRecording :: bool
  currentSession :: "recorder_session option"
  recordedChunks :: "chunk list"
  cursorEvents :: "legacy_event list"
  r_settings :: "capture_settings option"

definition new_recorder :: recorder where
  "new_recorder = \<lparr> isRecording = False, currentSession = None, recordedChunks = [],
                     cursorEvents = [], r_settings = None \<rparr>"

text \<open>\<open>handleMessage\<close>, case \<^verbatim>\<open>RECORD_CHUNK\<close>; the response is always
  \<^verbatim>\<open>{ success: true }\<close>.\<close>

definition cf_record_chunk :: "recorder \<Rightarrow> chunk_data \<Rightarrow> recorder" where
  "cf_record_chunk r d =
     (case d of
        DataBlob b \<Rightarrow> r \<lparr> recordedChunks := recordedChunks r @ [BlobChunk b] \<rparr>
      | DataBuffer bytes \<Rightarrow> r \<lparr> recordedChunks := recordedChunks r @ [BufferChunk bytes] \<rparr>
      | DataNone \<Rightarrow> r)"

definition cf_handleCursorEvent :: "recorder \<Rightarrow> event_data \<Rightarrow> int \<Rightarrow> recorder" where
  "cf_handleCursorEvent r eventData now =
     (case currentSession r of
        Some cs \<Rightarrow>
          if isRecording r
          then r \<lparr> cursorEvents := cursorEvents r @
                     [\<lparr> le_data = eventData, le_sessionId = cs_id cs, le_timestamp = now \<rparr>] \<rparr>
          else r
      | None \<Rightarrow> r)"

text \<open>
  \<open>startRecording\<close> (the class defines it twice; the later definition is the method).
  What the browser does is an input: the tab query or the capture request rejects with an
  error, the request yields no stream id, injecting the recorder fails, or all of it works.
  A response \<^verbatim>\<open>{ success: false, error }\<close> is \<open>Inl error\<close>, and
  \<^verbatim>\<open>{ success: true, sessionId }\<close> is \<open>Inr sessionId\<close>.
\<close>

datatype capture_outcome =
    CaptureThrew string
  | CaptureDenied
  | InjectFailed string
  | CaptureStarted

definition cf_startRecording ::
  "recorder \<Rightarrow> capture_settings \<Rightarrow> int \<Rightarrow> int \<Rightarrow> capture_outcome
     \<Rightarrow> (string + string) \<times> recorder" where
  "cf_startRecording r cfg t_id t_start out =
     (if isRecording r then (Inl ''Already recording'', r)
      else
        (let session = \<lparr> cs_id = ''recording_'' @ show_int t_id, cs_startTime = t_start,
                          cs_settings = cfg \<rparr>;
             r1 = r \<lparr> r_settings := Some cfg, currentSession := Some session \<rparr>;
             reset = r1 \<lparr> isRecording := False, currentSession := None \<rparr>
         in case out of
              CaptureThrew msg \<Rightarrow> (Inl msg, reset)
            | CaptureDenied \<Rightarrow> (Inl ''Screen capture permission denied'', r1)
            | InjectFailed msg \<Rightarrow> (Inl (''Failed to initialize recording: '' @ msg), reset)
            | CaptureStarted \<Rightarrow>
                (Inr (cs_id session),
                 r1 \<lparr> isRecording := True, recordedChunks := [], cursorEvents := [] \<rparr>)))"

definition recordings_list_of :: "storage \<Rightarrow> recording_summary list" where
  "recordings_list_of st =
     (case storage_get st ''recordings_list'' of Some (SRecordingsList l) \<Rightarrow> l | _ \<Rightarrow> [])"

definition recording_summary_of :: "recording \<Rightarrow> recording_summary" where
  "recording_summary_of rc =
     \<lparr> rs_id = rc_id rc, rs_timestamp = rc_timestamp rc, rs_duration = rc_duration rc,
       rs_size = rc_size rc, rs_settings = rc_settings rc \<rparr>"

definition cf_saveToStorage :: "storage \<Rightarrow> recording \<Rightarrow> storage" where
  "cf_saveToStorage st rc =
     (let st1 = storage_set st (''recording_'' @ rc_id rc) (SRecording rc);
          updatedList = take 10 (recording_summary_of rc # recordings_list_of st1)
      in storage_set st1 ''recordings_list'' (SRecordingsList updatedList))"

definition chunk_bytes :: "chunk \<Rightarrow> nat list" where
  "chunk_bytes c = (case c of BlobChunk b \<Rightarrow> blob_bytes b | BufferChunk bytes \<Rightarrow> bytes)"

text \<open>\<^verbatim>\<open>new Blob(this.recordedChunks)\<close> concatenates the chunks in array order.\<close>

definition cf_saveRecording ::
  "recorder \<Rightarrow> storage \<Rightarrow> int \<Rightarrow> (js_error + string) \<times> storage" where
  "cf_saveRecording r st now =
     (case currentSession r of
        None \<Rightarrow> (Inl (Error ''No recording data to save''), st)
      | Some cs \<Rightarrow>
          if recordedChunks r = [] then (Inl (Error ''No recording data to save''), st)
          else
            (let bytes = concat (map chunk_bytes (recordedChunks r));
                 rc = \<lparr> rc_id = cs_id cs, rc_timestamp = cs_startTime cs,
                        rc_settings = cs_settings cs, rc_duration = now - cs_startTime cs,
                        rc_cursorEvents = cursorEvents r, rc_videoData = Some bytes,
                        rc_size = int (length bytes), rc_mimeType = ''video/webm'',
                        rc_error = None \<rparr>
             in (Inr (rc_id rc), cf_saveToStorage st rc)))"

definition cf_saveEmptyRecording ::
  "recorder \<Rightarrow> storage \<Rightarrow> int \<Rightarrow> (js_error + string) \<times> storage" where
  "cf_saveEmptyRecording r st now =
     (case currentSession r of
        None \<Rightarrow> (Inl (TypeError ''Cannot read properties of null (reading 'id')''), st)
      | Some cs \<Rightarrow>
          (let rc = \<lparr> rc_id = cs_id cs, rc_timestamp = cs_startTime cs,
                      rc_settings = cs_settings cs, rc_duration = now - cs_startTime cs,
                      rc_cursorEvents = cursorEvents r, rc_videoData = None,
                      rc_size = 0, rc_mimeType = ''video/webm'',
                      rc_error = Some ''No video data received'' \<rparr>
           in (Inr (rc_id rc), cf_saveToStorage st rc)))"

text \<open>\<open>stopRecording\<close> calls \<^verbatim>\<open>this.openRecordingViewer(savedRecordingId)\<close>. Neither the
  class nor any other file of the repository defines a method of that name, so the call
  throws.\<close>

definition openRecordingViewer :: "string \<Rightarrow> js_error option" where
  "openRecordingViewer savedRecordingId = Some (TypeError ''this.openRecordingViewer is not a function'')"

definition error_message :: "js_error \<Rightarrow> string" where
  "error_message e = (case e of Error msg \<Rightarrow> msg | TypeError msg \<Rightarrow> msg)"

record cf_stop_result =
  sp_sessionId :: string
  sp_recordingId :: string

text \<open>\<open>now\<close> is the clock reading of the saved recording's duration; the content script
  is notified first, which never throws, and two seconds pass. Every throw inside is caught
  and answered with \<^verbatim>\<open>{ success: false, error: error.message }\<close>.\<close>

definition cf_stopRecording ::
  "recorder \<Rightarrow> storage \<Rightarrow> int \<Rightarrow> (string + cf_stop_result) \<times> recorder \<times> storage" where
  "cf_stopRecording r st now =
     (if \<not> isRecording r then (Inl ''Not recording'', r, st)
      else
        (let reset = r \<lparr> isRecording := False, currentSession := None \<rparr>
         in case currentSession r of
              None \<Rightarrow> (Inl ''Cannot read properties of null (reading 'id')'', reset, st)
            | Some cs \<Rightarrow>
                (case (if recordedChunks r \<noteq> [] then cf_saveRecording r st now
                       else cf_saveEmptyRecording r st now) of
                   (Inl e, st') \<Rightarrow> (Inl (error_message e), reset, st')
                 | (Inr savedRecordingId, st') \<Rightarrow>
                     (case (if savedRecordingId \<noteq> [] then openRecordingViewer savedRecordingId
                            else None) of
                        Some e \<Rightarrow> (Inl (error_message e), reset, st')
                      | None \<Rightarrow>
                          (Inr \<lparr> sp_sessionId = cs_id cs, sp_recordingId = savedRecordingId \<rparr>,
                           reset, st')))))"

section \<open>Vocabulary of the properties, and concrete inputs\<close>

text \<open>The session registered under an id is in a given state.\<close>

definition session_in_state :: "recording_manager \<Rightarrow> string \<Rightarrow> session_state \<Rightarrow> bool" where
  "session_in_state m sessionId q =
     (case activeSessions m sessionId of None \<Rightarrow> False | Some s \<Rightarrow> s_state s = q)"

text \<open>A manager whose only session, started at clock reading 1000, is recording.\<close>

definition test_session :: session where
  "test_session =
     \<lparr> s_id = ''session_1_1000'', s_tabId = 7, s_streamId = ''stream'', s_startTime = 1000,
       s_state = Recording, s_cursorEvents = [], s_videoBlobs = [],
       s_settings = \<lparr> quality = ''high'', fps = 30, autoZoom = True, zoomLevel = 2,
                      zoomDuration = 300 \<rparr>,
       s_endTime = None, s_pauseTime = None, s_totalPauseDuration = None \<rparr>"

definition test_manager :: recording_manager where
  "test_manager = \<lparr> activeSessions = [''session_1_1000'' \<mapsto> test_session], recordingId = 1 \<rparr>"

text \<open>The paused time a session has accumulated, \<^verbatim>\<open>session.totalPauseDuration || 0\<close>.\<close>

definition total_paused :: "session \<Rightarrow> int" where
  "total_paused s = or_num (s_totalPauseDuration s) 0"

text \<open>A run of arrivals: each is the event data with the two clock readings of its
  \<open>addCursorEvent\<close> call.\<close>

fun addCursorEvents ::
  "recording_manager \<Rightarrow> (event_data \<times> int \<times> int) list \<Rightarrow> recording_manager" where
  "addCursorEvents m [] = m"
| "addCursorEvents m (a # rest) =
     addCursorEvents (snd (addCursorEvent m (fst a) (fst (snd a)) (snd (snd a)))) rest"

definition recorded_event :: "session \<Rightarrow> int \<Rightarrow> event_data \<times> int \<times> int \<Rightarrow> cursor_event" where
  "recorded_event s p a =
     \<lparr> ce_data = (fst a) \<lparr> ev_timestamp := fst (snd a) - s_startTime s \<rparr>,
       ce_relativeTime = snd (snd a) - s_startTime s - p \<rparr>"

text \<open>The events recorded so far for a registered session.\<close>

definition registered_events :: "recording_manager \<Rightarrow> string \<Rightarrow> cursor_event list" where
  "registered_events m sessionId =
     (case activeSessions m sessionId of None \<Rightarrow> [] | Some s \<Rightarrow> s_cursorEvents s)"

definition test_event :: "int \<Rightarrow> event_data" where
  "test_event t = \<lparr> ev_sessionId = ''session_1_1000'', ev_type = ''mousemove'', ev_x = 10,
                    ev_y = 20, ev_timestamp = t \<rparr>"

text \<open>The test session after a pause at 6000 and a resume at 8000.\<close>

definition paused_once :: recording_manager where
  "paused_once =
     snd (resumeRecording (snd (pauseRecording test_manager ''session_1_1000'' 6000))
            ''session_1_1000'' 8000)"

text \<open>The duration of the timeline in the answer of \<open>stopRecording\<close>.\<close>

definition sealed_duration :: "(js_error + stop_result) \<Rightarrow> int option" where
  "sealed_duration r =
     (case r of Inl e \<Rightarrow> None | Inr res \<Rightarrow> tl_duration (p_timeline (st_projectData res)))"

definition no_io_error :: "nat \<Rightarrow> js_error option" where
  "no_io_error i = None"

definition clock_12000 :: "nat \<Rightarrow> int" where
  "clock_12000 i = 12000"

definition test_options :: start_options where
  "test_options = \<lparr> o_tabId = 7, o_streamId = ''stream'', o_quality = None, o_fps = None,
                     o_autoZoom = None, o_zoomLevel = None, o_zoomDuration = None,
                     o_settings = None \<rparr>"

definition test_capture_settings :: capture_settings where
  "test_capture_settings = \<lparr> cap_width = 1920, cap_height = 1080, cap_fps = 30 \<rparr>"

text \<open>A run of \<^verbatim>\<open>RECORD_CHUNK\<close> messages, in the order of arrival, and the chunk each adds.\<close>

fun cf_record_chunks :: "recorder \<Rightarrow> chunk_data list \<Rightarrow> recorder" where
  "cf_record_chunks r [] = r"
| "cf_record_chunks r (d # ds) = cf_record_chunks (cf_record_chunk r d) ds"

definition chunk_of_data :: "chunk_data \<Rightarrow> chunk list" where
  "chunk_of_data d =
     (case d of DataBlob b \<Rightarrow> [BlobChunk b] | DataBuffer bytes \<Rightarrow> [BufferChunk bytes]
      | DataNone \<Rightarrow> [])"

text \<open>What the specification asks for: arrivals tagged with the capture order of their
  chunk (the code has no such tag), sealed in the order of the tags.\<close>

definition by_sequenceIndex :: "(nat \<times> chunk_data) list \<Rightarrow> chunk list" where
  "by_sequenceIndex arrivals = concat (map (chunk_of_data \<circ> snd) (sort_key fst arrivals))"

definition arrivals_1_0_2 :: "(nat \<times> chunk_data) list" where
  "arrivals_1_0_2 = [(1, DataBuffer [11]), (0, DataBuffer [10]), (2, DataBuffer [12])]"

text \<open>The recorder right after a successful start at clock reading 1000.\<close>

definition started_recorder :: recorder where
  "started_recorder =
     snd (cf_startRecording new_recorder test_capture_settings 1000 1000 CaptureStarted)"

text \<open>A project last updated at clock reading 1000, and one updated thirty days later.\<close>

definition month_old_project :: project where
  "month_old_project =
     \<lparr> p_id = ''p1'', p_name = ''Imported'', p_createdAt = Some 1000, p_updatedAt = Some 1000,
       p_duration = Some 5000,
       p_settings = \<lparr> quality = ''high'', fps = 30, autoZoom = True, zoomLevel = 2,
                      zoomDuration = 300 \<rparr>,
       p_timeline = \<lparr> tl_duration = Some 5000, tl_cursorEvents = [], tl_videoSegments = [] \<rparr>,
       p_export = \<lparr> ex_formats = [''mp4'', ''webm''], ex_quality = ''high'',
                    ex_resolution = ''1920x1080'' \<rparr>,
       p_thumbnail = None, p_savedAt = None, p_lastAccessed = None \<rparr>"

definition fresh_project :: project where
  "fresh_project = month_old_project \<lparr> p_id := ''p2'', p_updatedAt := Some 2592000000 \<rparr>"

definition store_with_project :: storage where
  "store_with_project =
     [(''project_p2'', SProject fresh_project),
      (''recent_projects'', SRecentProjects [summary_of fresh_project])]"

text \<open>The storage keys of the blobs that the timelines of the stored projects refer to
  (\<open>getBlobData\<close> reads a segment's blob under \<^verbatim>\<open>blob_${blobId}\<close>), and referential integrity:
  each of them is in the store.\<close>

definition referenced_blob_keys :: "storage \<Rightarrow> string list" where
  "referenced_blob_keys st =
     concat (map (\<lambda>p. map (\<lambda>seg. ''blob_'' @ seg_blobId seg) (tl_videoSegments (p_timeline p)))
               (stored_projects st))"

definition referential_integrity :: "storage \<Rightarrow> bool" where
  "referential_integrity st = list_all (\<lambda>k. storage_get st k \<noteq> None) (referenced_blob_keys st)"

text \<open>The store as the code leaves it when the test session, holding one video blob, is
  stopped at 11000 and its project is saved at 12000.\<close>

definition test_blob :: blob where
  "test_blob = \<lparr> blob_bytes = [1, 2, 3], blob_type = ''video/webm'' \<rparr>"

definition persisted_project :: project where
  "persisted_project =
     \<lparr> p_id = ''project_session_1_1000'', p_name = ''Recording 1/1/2026'',
       p_createdAt = Some 1000, p_updatedAt = Some 11000, p_duration = Some 10000,
       p_settings = \<lparr> quality = ''high'', fps = 30, autoZoom = True, zoomLevel = 2,
                      zoomDuration = 300 \<rparr>,
       p_timeline =
         \<lparr> tl_duration = Some 10000, tl_cursorEvents = [],
           tl_videoSegments =
             [\<lparr> seg_id = ''segment_0'', seg_startTime = 0, seg_duration = 1000,
                seg_blobId = ''session_1_1000_0'', seg_size = 3,
                seg_type = ''video/webm'' \<rparr>] \<rparr>,
       p_export = \<lparr> ex_formats = [''mp4'', ''webm''], ex_quality = ''high'',
                    ex_resolution = ''1920x1080'' \<rparr>,
       p_thumbnail = None, p_savedAt = Some 12000, p_lastAccessed = None \<rparr>"

definition persisted_store :: storage where
  "persisted_store =
     [(''blob_session_1_1000_0'',
       SBlob \<lparr> br_data = [1, 2, 3], br_type = ''video/webm'', br_size = 3,
                br_createdAt = Some 12000 \<rparr>),
      (''project_project_session_1_1000'', SProject persisted_project),
      (''recent_projects'',
       SRecentProjects
         [\<lparr> ps_id = ''project_session_1_1000'', ps_name = ''Recording 1/1/2026'',
            ps_createdAt = Some 1000, ps_updatedAt = Some 11000, ps_duration = Some 10000,
            ps_thumbnail = None \<rparr>])]"

text \<open>A browser that charges every stored blob its size, with Chrome's quota of 10 MB; a
  clock a month after the test session; a referenced store with four old blobs, two recent
  large ones (their data elided), a temporary entry and an orphan.\<close>

definition blob_bytes_in_use :: "storage \<Rightarrow> int" where
  "blob_bytes_in_use st =
     sum_list (map (\<lambda>kv. case snd kv of SBlob b \<Rightarrow> br_size b | _ \<Rightarrow> 0) st)"

definition test_browser :: browser where
  "test_browser = \<lparr> getBytesInUse = blob_bytes_in_use, QUOTA_BYTES = Some 10485760 \<rparr>"

definition month_later :: "string \<Rightarrow> int" where
  "month_later key = 2592001001"





text \<open>What the loop of \<open>cleanupStorage\<close> collects when it does not throw, and when it
  throws: at a referenced blob key that holds \<^verbatim>\<open>null\<close>.\<close>

definition orphanedBlobs :: "storage \<Rightarrow> string list" where
  "orphanedBlobs allData =
     filter (\<lambda>blobKey. \<not> isReferenced (getProjectIdsFromData allData) blobKey) (blobKeys allData)"




section \<open>Properties of the session state machine\<close>

lemma test_lookup: "activeSessions test_manager ''session_1_1000'' = Some test_session"
  by (simp add: test_manager_def)

text \<open>
  C4. \<open>pauseRecording\<close> succeeds exactly when the session is registered and in state
  \<^verbatim>\<open>'recording'\<close>, and \<open>resumeRecording\<close> exactly when it is in state \<^verbatim>\<open>'paused'\<close>. From any
  other state (or for an unknown session) the call throws its invalid-state error and the
  manager, hence every field of every session, is what it was.
\<close>

theorem pause_resume_guarded:
  "(session_in_state m sessionId Recording \<longrightarrow>
      fst (pauseRecording m sessionId now) = Inr \<lparr> sr_success = True, sr_state = Paused \<rparr> \<and>
      session_in_state (snd (pauseRecording m sessionId now)) sessionId Paused) \<and>
   (\<not> session_in_state m sessionId Recording \<longrightarrow>
      pauseRecording m sessionId now = (Inl (Error ''Invalid session state for pause''), m)) \<and>
   (session_in_state m sessionId Paused \<longrightarrow>
      fst (resumeRecording m sessionId now) = Inr \<lparr> sr_success = True, sr_state = Recording \<rparr> \<and>
      session_in_state (snd (resumeRecording m sessionId now)) sessionId Recording) \<and>
   (\<not> session_in_state m sessionId Paused \<longrightarrow>
      resumeRecording m sessionId now = (Inl (Error ''Invalid session state for resume''), m))"
  by (simp add: session_in_state_def pauseRecording_def resumeRecording_def Let_def
      split: option.splits)

theorem pause_resume_guarded_witness:
  "session_in_state test_manager ''session_1_1000'' Recording \<and>
   \<not> session_in_state test_manager ''session_1_1000'' Paused \<and>
   fst (pauseRecording test_manager ''session_1_1000'' 6000) =
     Inr \<lparr> sr_success = True, sr_state = Paused \<rparr> \<and>
   session_in_state (snd (pauseRecording test_manager ''session_1_1000'' 6000))
     ''session_1_1000'' Paused \<and>
   resumeRecording test_manager ''session_1_1000'' 6000 =
     (Inl (Error ''Invalid session state for resume''), test_manager)"
  using pause_resume_guarded [of test_manager "''session_1_1000''" 6000]
  by (simp add: session_in_state_def test_lookup test_session_def)

subsection \<open>Relative time of cursor events\<close>

lemma addCursorEvent_session:
  assumes "activeSessions m (ev_sessionId e) = Some s"
  shows "addCursorEvent m e t1 t2 =
           (Inr (), m \<lparr> activeSessions := (activeSessions m)
              (ev_sessionId e \<mapsto> s \<lparr> s_cursorEvents :=
                 s_cursorEvents s @ [recorded_event s (total_paused s) (e, t1, t2)] \<rparr>) \<rparr>)"
  using assms by (simp add: addCursorEvent_def recorded_event_def total_paused_def)

lemma addCursorEvents_session:
  assumes "activeSessions m sid = Some s" and "\<forall>a \<in> set arr. ev_sessionId (fst a) = sid"
  shows "activeSessions (addCursorEvents m arr) sid =
           Some (s \<lparr> s_cursorEvents :=
                       s_cursorEvents s @ map (recorded_event s (total_paused s)) arr \<rparr>)"
  using assms
proof (induction arr arbitrary: m s)
  case Nil
  then show ?case by simp
next
  case (Cons a arr)
  let ?s1 = "s \<lparr> s_cursorEvents :=
                 s_cursorEvents s @ [recorded_event s (total_paused s) a] \<rparr>"
  from Cons.prems have sid: "ev_sessionId (fst a) = sid" by simp
  have step: "activeSessions (snd (addCursorEvent m (fst a) (fst (snd a)) (snd (snd a)))) sid
                = Some ?s1"
    using Cons.prems(1) sid addCursorEvent_session [of m "fst a" s "fst (snd a)" "snd (snd a)"]
    by simp
  have rest: "\<forall>b \<in> set arr. ev_sessionId (fst b) = sid" using Cons.prems(2) by simp
  have same: "recorded_event ?s1 (total_paused ?s1) = recorded_event s (total_paused s)"
    by (rule ext) (simp add: recorded_event_def total_paused_def)
  show ?case
    using Cons.IH [OF step rest] by (simp add: same)
qed

lemma pause_then_resume:
  assumes "activeSessions m sid = Some s" and "s_state s = Recording"
  shows "activeSessions (snd (resumeRecording (snd (pauseRecording m sid tp)) sid tr)) sid =
           Some (s \<lparr> s_state := Recording, s_pauseTime := Some tp,
                      s_totalPauseDuration := Some (total_paused s + (tr - tp)) \<rparr>)"
  using assms by (simp add: pauseRecording_def resumeRecording_def total_paused_def)

lemma paused_once_lookup:
  "activeSessions paused_once ''session_1_1000'' =
     Some (test_session \<lparr> s_state := Recording, s_pauseTime := Some 6000,
                           s_totalPauseDuration := Some 2000 \<rparr>)"
  by (simp add: paused_once_def pauseRecording_def resumeRecording_def test_lookup
      test_session_def or_num_def)

text \<open>
  C1. An event that arrives for a registered session is accepted and appended to the
  session's log, and its \<open>relativeTime\<close> is the clock reading taken at arrival minus the
  session's start time minus the paused time accumulated so far. In particular, for a
  session that has not been paused before, is paused at \<open>tp\<close> and resumed at \<open>tr\<close>, every
  event of a later run of arrivals gets its clock reading minus the start time minus
  \<open>tr - tp\<close>.
\<close>

theorem relativeTime_pause_adjusted:
  "(activeSessions m (ev_sessionId e) = Some s \<longrightarrow>
      fst (addCursorEvent m e t1 t2) = Inr () \<and>
      map ce_relativeTime (registered_events (snd (addCursorEvent m e t1 t2)) (ev_sessionId e)) =
        map ce_relativeTime (s_cursorEvents s) @ [(t2 - s_startTime s) - total_paused s]) \<and>
   (activeSessions m sid = Some s \<and> s_state s = Recording \<and> total_paused s = 0 \<and>
    (\<forall>a \<in> set arr. ev_sessionId (fst a) = sid) \<longrightarrow>
      map ce_relativeTime
        (registered_events
           (addCursorEvents (snd (resumeRecording (snd (pauseRecording m sid tp)) sid tr)) arr)
           sid) =
        map ce_relativeTime (s_cursorEvents s) @
        map (\<lambda>a. snd (snd a) - s_startTime s - (tr - tp)) arr)"
proof (intro conjI impI)
  assume a: "activeSessions m (ev_sessionId e) = Some s"
  show "fst (addCursorEvent m e t1 t2) = Inr ()"
    by (simp add: addCursorEvent_session [OF a])
  show "map ce_relativeTime
          (registered_events (snd (addCursorEvent m e t1 t2)) (ev_sessionId e)) =
        map ce_relativeTime (s_cursorEvents s) @ [(t2 - s_startTime s) - total_paused s]"
    by (simp add: addCursorEvent_session [OF a] registered_events_def recorded_event_def)
next
  assume b: "activeSessions m sid = Some s \<and> s_state s = Recording \<and> total_paused s = 0 \<and>
             (\<forall>a \<in> set arr. ev_sessionId (fst a) = sid)"
  let ?s2 = "s \<lparr> s_state := Recording, s_pauseTime := Some tp,
                  s_totalPauseDuration := Some (total_paused s + (tr - tp)) \<rparr>"
  let ?m2 = "snd (resumeRecording (snd (pauseRecording m sid tp)) sid tr)"
  have m2: "activeSessions ?m2 sid = Some ?s2"
    using b pause_then_resume by simp
  have p: "total_paused ?s2 = tr - tp"
    using b by (simp add: total_paused_def or_num_def)
  have "activeSessions (addCursorEvents ?m2 arr) sid =
          Some (?s2 \<lparr> s_cursorEvents :=
                        s_cursorEvents ?s2 @ map (recorded_event ?s2 (total_paused ?s2)) arr \<rparr>)"
    using addCursorEvents_session [OF m2] b by simp
  then show "map ce_relativeTime (registered_events (addCursorEvents ?m2 arr) sid) =
        map ce_relativeTime (s_cursorEvents s) @
        map (\<lambda>a. snd (snd a) - s_startTime s - (tr - tp)) arr"
    by (simp add: registered_events_def p recorded_event_def comp_def)
qed

theorem relativeTime_pause_adjusted_witness:
  "activeSessions test_manager (ev_sessionId (test_event 9000)) = Some test_session \<and>
   s_state test_session = Recording \<and> total_paused test_session = 0 \<and>
   fst (addCursorEvent test_manager (test_event 9000) 9000 9001) = Inr () \<and>
   map ce_relativeTime
     (registered_events (snd (addCursorEvent test_manager (test_event 9000) 9000 9001))
        ''session_1_1000'') = [8001] \<and>
   map ce_relativeTime
     (registered_events
        (addCursorEvents paused_once [(test_event 8500, 8500, 8500), (test_event 9000, 9000, 9000)])
        ''session_1_1000'') = [8500 - 1000 - 2000, 9000 - 1000 - 2000]"
  using relativeTime_pause_adjusted [of test_manager "test_event 9000" test_session 9000 9001
      "''session_1_1000''" "[(test_event 8500, 8500, 8500), (test_event 9000, 9000, 9000)]"
      6000 8000]
  by (simp add: test_lookup test_event_def total_paused_def or_num_def paused_once_def)
     (simp add: test_session_def)

subsection \<open>Duration of the sealed timeline\<close>

lemma stopRecording_success:
  assumes "stopRecording m st sid now stop_out track_out date_str t_updated io clk =
             (Inr res, m', st')"
  shows "\<exists>s blobs. activeSessions m sid = Some s \<and>
           st_projectData res = project_of_session
              (s \<lparr> s_state := Stopping, s_endTime := Some now, s_videoBlobs := blobs \<rparr>)
              date_str t_updated \<and>
           st_duration res = now - s_startTime s \<and> activeSessions m' sid = None"
  using assms
  by (auto simp add: stopRecording_def stopMediaRecorder_def stopCursorTracking_def
      generateProjectData_def Let_def
      split: option.splits sum.splits stop_outcome.splits send_outcome.splits prod.splits)

text \<open>
  C2, as the code has it. When \<open>stopRecording\<close> succeeds for a registered session, the
  duration of the sealed timeline (and of the project, and of the answer) is the clock
  reading at the stop minus the session's start time, whatever time the session spent
  paused: the paused time is not subtracted.
\<close>

theorem sealed_duration_is_wall_clock_span:
  assumes "activeSessions m sid = Some s"
    and "fst (stopRecording m st sid now stop_out track_out date_str t_updated io clk) = Inr res"
  shows "sealed_duration (Inr res) = Some (now - s_startTime s) \<and>
         p_duration (st_projectData res) = Some (now - s_startTime s) \<and>
         st_duration res = now - s_startTime s"
proof -
  obtain m' st' where
    "stopRecording m st sid now stop_out track_out date_str t_updated io clk = (Inr res, m', st')"
    using assms(2)
    by (cases "stopRecording m st sid now stop_out track_out date_str t_updated io clk") auto
  from stopRecording_success [OF this] assms(1) show ?thesis
    by (auto simp add: sealed_duration_def project_of_session_def session_span_def)
qed

theorem sealed_duration_is_wall_clock_span_witness:
  "activeSessions paused_once ''session_1_1000'' =
     Some (test_session \<lparr> s_state := Recording, s_pauseTime := Some 6000,
                           s_totalPauseDuration := Some 2000 \<rparr>) \<and>
   sealed_duration
     (fst (stopRecording paused_once [] ''session_1_1000'' 11000 (StopAck None) Sent
             ''1/1/2026'' 11000 no_io_error clock_12000)) = Some (11000 - 1000)"
proof -
  let ?r = "stopRecording paused_once [] ''session_1_1000'' 11000 (StopAck None) Sent
             ''1/1/2026'' 11000 no_io_error clock_12000"
  obtain res where res: "fst ?r = Inr res"
    by (simp add: paused_once_lookup stopRecording_def stopMediaRecorder_def
      stopCursorTracking_def generateProjectData_def test_session_def)
  have "sealed_duration (Inr res) =
          Some (11000 - s_startTime (test_session \<lparr> s_state := Recording,
                  s_pauseTime := Some 6000, s_totalPauseDuration := Some 2000 \<rparr>))"
    using sealed_duration_is_wall_clock_span [OF paused_once_lookup res] by simp
  then show ?thesis using res by (simp add: paused_once_lookup test_session_def)
qed

text \<open>
  C2, as stated, fails: the test session starts at 1000, is paused from 6000 to 8000 and
  stopped at 11000. Its wall-clock span is 10000 and its paused time 2000, and the sealed
  duration is 10000, not 8000.
\<close>

theorem sealed_duration_counterexample:
  "activeSessions paused_once ''session_1_1000'' =
     Some (test_session \<lparr> s_state := Recording, s_pauseTime := Some 6000,
                           s_totalPauseDuration := Some 2000 \<rparr>) \<and>
   s_startTime test_session = 1000 \<and>
   sealed_duration
     (fst (stopRecording paused_once [] ''session_1_1000'' 11000 (StopAck None) Sent
             ''1/1/2026'' 11000 no_io_error clock_12000)) = Some 10000 \<and>
   sealed_duration
     (fst (stopRecording paused_once [] ''session_1_1000'' 11000 (StopAck None) Sent
             ''1/1/2026'' 11000 no_io_error clock_12000)) \<noteq> Some ((11000 - 1000) - 2000)"
  by (simp add: paused_once_lookup stopRecording_def stopMediaRecorder_def
      stopCursorTracking_def generateProjectData_def sealed_duration_def
      project_of_session_def session_span_def test_session_def)

subsection \<open>A failed start\<close>

lemma startRecording_failure:
  assumes "startRecording m opts t_id t_start init track = (Inl e, m')"
  shows "m' = m \<lparr> recordingId := recordingId m + 1,
                   activeSessions := (activeSessions m)(new_session_id m t_id := None) \<rparr>"
  using assms
  by (auto simp add: startRecording_def Let_def split: option.splits)

lemma startRecording_acknowledged:
  "\<exists>s. fst (startRecording m opts t_id t_start InitAck Sent) = Inr s \<and>
       s_state s = Recording \<and> s_id s = new_session_id m t_id \<and>
       activeSessions (snd (startRecording m opts t_id t_start InitAck Sent)) (s_id s) = Some s"
  by (simp add: startRecording_def Let_def initializeMediaRecorder_def startCursorTracking_def)

lemma cf_startRecording_caught:
  assumes "\<not> isRecording r" and "out = CaptureThrew msg \<or> out = InjectFailed msg"
  shows "currentSession (snd (cf_startRecording r cfg t_id t_start out)) = None"
  using assms by (auto simp add: cf_startRecording_def Let_def)

text \<open>
  C8 at a concrete input. The manager rolls a failed start back: the registry holds no
  session under the id that was generated (\<open>startRecording_failure\<close>). The single-session
  recorder does the same where its start throws: the catch block clears the current session
  (\<open>cf_startRecording_caught\<close>). Where the capture is denied, \<open>startRecording\<close> of the
  recorder returns early instead: it answers the failure, and the rejected session is still
  the recorder's current session.
\<close>

theorem denied_start_keeps_session:
  "fst (startRecording new_manager test_options 1000 1000 InitTimeout Sent) =
     Inl (Error ''Media recorder initialization timeout after 15 seconds'') \<and>
   activeSessions (snd (startRecording new_manager test_options 1000 1000 InitTimeout Sent))
     (new_session_id new_manager 1000) = None \<and>
   currentSession
     (snd (cf_startRecording new_recorder test_capture_settings 1000 1000
             (CaptureThrew ''Request aborted''))) = None \<and>
   fst (cf_startRecording new_recorder test_capture_settings 1000 1000 CaptureDenied) =
     Inl ''Screen capture permission denied'' \<and>
   currentSession
     (snd (cf_startRecording new_recorder test_capture_settings 1000 1000 CaptureDenied)) =
     Some \<lparr> cs_id = ''recording_1000'', cs_startTime = 1000,
            cs_settings = test_capture_settings \<rparr> \<and>
   \<not> isRecording
       (snd (cf_startRecording new_recorder test_capture_settings 1000 1000 CaptureDenied))"
  by code_simp

subsection \<open>Order of the video chunks\<close>

lemma cf_record_chunks_append:
  "recordedChunks (cf_record_chunks r ds) = recordedChunks r @ concat (map chunk_of_data ds)"
  by (induction ds arbitrary: r)
     (simp_all add: cf_record_chunk_def chunk_of_data_def split: chunk_data.splits)

lemma map_snd_enumerate: "map (\<lambda>ib. f (snd ib)) (enumerate n xs) = map f xs"
  by (induction xs arbitrary: n) simp_all

lemma map_fst_enumerate_upt:
  "map (\<lambda>ib. g (fst ib)) (enumerate n xs) = map g [n..<n + length xs]"
proof (induction xs arbitrary: n)
  case Nil
  then show ?case by simp
next
  case (Cons x xs)
  have "[n..<n + length (x # xs)] = n # [Suc n..<Suc n + length xs]"
    by (subst upt_rec) simp
  then show ?case using Cons.IH [of "Suc n"] by simp
qed

text \<open>
  C3, as the code has it. Nothing in the code carries a sequence index and nothing sorts:
  the recorder appends each received chunk to \<open>recordedChunks\<close>, so the chunks are kept in
  the order of arrival; and \<open>generateProjectData\<close> makes segment \<open>i\<close> of the timeline from
  the \<open>i\<close>-th blob of the array the content script returned, with blob id
  \<^verbatim>\<open>${session.id}_${i}\<close>.
\<close>

theorem segments_in_arrival_order:
  "recordedChunks (cf_record_chunks r ds) = recordedChunks r @ concat (map chunk_of_data ds) \<and>
   map seg_size (tl_videoSegments (p_timeline (project_of_session s date_str t_updated))) =
     map blob_size (s_videoBlobs s) \<and>
   map seg_type (tl_videoSegments (p_timeline (project_of_session s date_str t_updated))) =
     map blob_type (s_videoBlobs s) \<and>
   map seg_blobId (tl_videoSegments (p_timeline (project_of_session s date_str t_updated))) =
     map (\<lambda>i. s_id s @ ''_'' @ show_nat i) [0..<length (s_videoBlobs s)]"
proof -
  have ids: "map (\<lambda>ib. s_id s @ ''_'' @ show_nat (fst ib)) (enumerate 0 (s_videoBlobs s)) =
             map (\<lambda>i. s_id s @ ''_'' @ show_nat i) [0..<0 + length (s_videoBlobs s)]"
    by (rule map_fst_enumerate_upt)
  show ?thesis
    using ids
    by (simp add: cf_record_chunks_append project_of_session_def video_segment_of_def comp_def
        map_snd_enumerate)
qed

text \<open>
  C3, as stated, fails: chunks captured as 0, 1, 2 that arrive as 1, 0, 2 are kept as
  1, 0, 2.
\<close>

theorem segments_by_sequenceIndex_counterexample:
  "recordedChunks (cf_record_chunks started_recorder (map snd arrivals_1_0_2)) =
     [BufferChunk [11], BufferChunk [10], BufferChunk [12]] \<and>
   by_sequenceIndex arrivals_1_0_2 = [BufferChunk [10], BufferChunk [11], BufferChunk [12]] \<and>
   recordedChunks (cf_record_chunks started_recorder (map snd arrivals_1_0_2)) \<noteq>
     by_sequenceIndex arrivals_1_0_2"
  by (simp add: arrivals_1_0_2_def by_sequenceIndex_def started_recorder_def
      cf_startRecording_def new_recorder_def cf_record_chunk_def chunk_of_data_def Let_def)

subsection \<open>Stopping without video data\<close>

text \<open>
  C5 at a concrete input: a recorder that was started and received no chunk. The
  metadata-only recording is stored (no video data, size 0, the error text as flag), but the
  answer of \<open>stopRecording\<close> is a failure: the call of the undefined \<open>openRecordingViewer\<close>
  throws after the save.
\<close>

theorem stop_without_chunks_answers_failure:
  "isRecording started_recorder \<and> recordedChunks started_recorder = [] \<and>
   fst (cf_stopRecording started_recorder [] 5000) =
     Inl ''this.openRecordingViewer is not a function'' \<and>
   storage_get (snd (snd (cf_stopRecording started_recorder [] 5000)))
     ''recording_recording_1000'' =
     Some (SRecording \<lparr> rc_id = ''recording_1000'', rc_timestamp = 1000,
                         rc_settings = test_capture_settings, rc_duration = 4000,
                         rc_cursorEvents = [], rc_videoData = None, rc_size = 0,
                         rc_mimeType = ''video/webm'',
                         rc_error = Some ''No video data received'' \<rparr>)"
  by (simp add: started_recorder_def cf_startRecording_def new_recorder_def Let_def
      cf_stopRecording_def cf_saveEmptyRecording_def cf_saveToStorage_def
      openRecordingViewer_def error_message_def storage_get_def storage_set_def
      show_int_def show_nat.simps digit_char_def recordings_list_of_def)

subsection \<open>Loading a project\<close>

lemma storage_get_set: "storage_get (storage_set st k v) k' = (if k' = k then Some v else storage_get st k')"
  by (simp add: storage_get_def storage_set_def update_conv')

lemma storage_keys_set_existing:
  "storage_get st k \<noteq> None \<Longrightarrow> storage_keys (storage_set st k v) = storage_keys st"
  by (simp add: storage_get_def storage_set_def storage_keys_def map_of_eq_None_iff update_keys)

text \<open>
  C10. For a project stored under \<^verbatim>\<open>project_${projectId}\<close>, \<open>loadProject\<close> returns the
  project with \<open>lastAccessed\<close> set to the clock reading and writes that record back under
  the same key. Every other field of the project, every other key of the store and the order
  of the keys are unchanged.
\<close>

theorem loadProject_touches_lastAccessed:
  assumes "storage_get st (''project_'' @ projectId) = Some (SProject p)"
  shows "loadProject st projectId now =
           (Inr (p \<lparr> p_lastAccessed := Some now \<rparr>),
            storage_set st (''project_'' @ projectId) (SProject (p \<lparr> p_lastAccessed := Some now \<rparr>)))
         \<and> storage_get (snd (loadProject st projectId now)) (''project_'' @ projectId) =
             Some (SProject (p \<lparr> p_lastAccessed := Some now \<rparr>))
         \<and> (\<forall>k. k \<noteq> ''project_'' @ projectId \<longrightarrow>
               storage_get (snd (loadProject st projectId now)) k = storage_get st k)
         \<and> storage_keys (snd (loadProject st projectId now)) = storage_keys st
         \<and> (p \<lparr> p_lastAccessed := Some now \<rparr>) \<lparr> p_lastAccessed := p_lastAccessed p \<rparr> = p"
  using assms
  by (simp add: loadProject_def Let_def storage_get_set storage_keys_set_existing)

theorem loadProject_touches_lastAccessed_witness:
  "storage_get store_with_project (''project_'' @ ''p2'') = Some (SProject fresh_project) \<and>
   fst (loadProject store_with_project ''p2'' 5000) =
     Inr (fresh_project \<lparr> p_lastAccessed := Some 5000 \<rparr>) \<and>
   storage_get (snd (loadProject store_with_project ''p2'' 5000)) ''project_p2'' =
     Some (SProject (fresh_project \<lparr> p_lastAccessed := Some 5000 \<rparr>)) \<and>
   storage_get (snd (loadProject store_with_project ''p2'' 5000)) ''recent_projects'' =
     storage_get store_with_project ''recent_projects'' \<and>
   storage_keys (snd (loadProject store_with_project ''p2'' 5000)) =
     [''project_p2'', ''recent_projects'']"
proof -
  have stored: "storage_get store_with_project (''project_'' @ ''p2'') =
                  Some (SProject fresh_project)"
    by (simp add: store_with_project_def storage_get_def)
  have keys: "storage_keys store_with_project = [''project_p2'', ''recent_projects'']"
    by (simp add: store_with_project_def storage_keys_def)
  show ?thesis
    using stored keys loadProject_touches_lastAccessed [OF stored, of 5000]
    by (simp add: storage_get_set storage_keys_set_existing)
qed

subsection \<open>The recent lists\<close>

lemma storage_get_remove:
  "storage_get (storage_remove st ks) k = (if k \<in> set ks then None else storage_get st k)"
  by (induction st) (auto simp add: storage_get_def storage_remove_def)

lemma startsWith_append [simp]: "startsWith (p @ s) p"
  by (induction p) simp_all

lemma recent_key_not_project: "''recent_projects'' \<noteq> ''project_'' @ x"
  by simp

lemma recent_after_update:
  "recent_projects_of (updateRecentProjects st p) = updated_recent_list (recent_projects_of st) p"
  by (simp add: updateRecentProjects_def recent_projects_of_def storage_get_set)

lemma recent_after_remove:
  "recent_projects_of (removeFromRecentProjects st pid) =
     filter (\<lambda>q. ps_id q \<noteq> pid) (recent_projects_of st)"
  by (simp add: removeFromRecentProjects_def recent_projects_of_def storage_get_set)

lemma recent_after_deleteProjectBlobs:
  "recent_projects_of (deleteProjectBlobs st pid) = recent_projects_of st"
proof -
  have "''recent_projects'' \<notin>
          set (filter (\<lambda>key. startsWith key ''blob_'' \<and> str_includes key pid) (storage_keys st))"
    by auto
  then show ?thesis
    by (simp add: deleteProjectBlobs_def Let_def recent_projects_of_def storage_get_remove)
qed

lemma recent_after_deleteProject:
  "recent_projects_of (deleteProject st pid) =
     filter (\<lambda>q. ps_id q \<noteq> pid) (recent_projects_of st)"
  by (simp add: deleteProject_def recent_after_remove recent_after_deleteProjectBlobs)
     (simp add: recent_projects_of_def storage_get_remove)

lemma recent_after_deletes:
  "recent_projects_of (foldl deleteProject st ids) =
     filter (\<lambda>q. ps_id q \<notin> set ids) (recent_projects_of st)"
proof (induction ids arbitrary: st)
  case Nil
  then show ?case by simp
next
  case (Cons a ids)
  show ?case
    by (simp add: Cons.IH recent_after_deleteProject)
qed

lemma recent_after_cleanup:
  "\<exists>ids. recent_projects_of (cleanupOldProjects st now) =
           filter (\<lambda>q. ps_id q \<notin> set ids) (recent_projects_of st)"
  unfolding cleanupOldProjects_def Let_def
  using recent_after_deletes by blast

lemma recent_after_project_write:
  "recent_projects_of (storage_set st (''project_'' @ x) v) = recent_projects_of st"
  by (simp add: recent_projects_of_def storage_get_set)

lemma take_filter_distinct:
  "distinct xs \<Longrightarrow>
   take n (filter (\<lambda>y. y \<noteq> x) (take (Suc n) xs)) = take n (filter (\<lambda>y. y \<noteq> x) xs)"
proof (induction xs arbitrary: n)
  case Nil
  then show ?case by simp
next
  case (Cons y ys)
  show ?case
  proof (cases "y = x")
    case True
    with Cons.prems have "x \<notin> set ys" by simp
    then have "filter (\<lambda>y. y \<noteq> x) ys = ys" "filter (\<lambda>y. y \<noteq> x) (take n ys) = take n ys"
      by (auto simp add: filter_id_conv dest: in_set_takeD)
    with True show ?thesis by simp
  next
    case False
    show ?thesis
    proof (cases n)
      case 0
      then show ?thesis by simp
    next
      case (Suc k)
      with False Cons.IH [of k] Cons.prems show ?thesis by simp
    qed
  qed
qed

lemma remdups_snoc: "remdups (xs @ [x]) = filter (\<lambda>y. y \<noteq> x) (remdups xs) @ [x]"
  by (induction xs) auto

lemma ids_updated_recent_list:
  "map ps_id (updated_recent_list l p) = take 20 (p_id p # filter (\<lambda>y. y \<noteq> p_id p) (map ps_id l))"
  by (simp add: updated_recent_list_def summary_of_def take_map filter_map comp_def)

lemma recent_history:
  assumes "recent_projects_of st = []"
  shows "map ps_id (recent_projects_of (foldl updateRecentProjects st ps)) =
           take 20 (rev (remdups (map p_id ps)))"
proof (induction ps rule: rev_induct)
  case Nil
  then show ?case using assms by simp
next
  case (snoc p ps)
  let ?R = "rev (remdups (map p_id ps))"
  have d: "distinct ?R" by simp
  have "map ps_id (recent_projects_of (foldl updateRecentProjects st (ps @ [p]))) =
          take 20 (p_id p # filter (\<lambda>y. y \<noteq> p_id p) (take 20 ?R))"
    by (simp add: recent_after_update ids_updated_recent_list snoc.IH)
  also have "\<dots> = p_id p # take 19 (filter (\<lambda>y. y \<noteq> p_id p) (take (Suc 19) ?R))"
    by simp
  also have "\<dots> = p_id p # take 19 (filter (\<lambda>y. y \<noteq> p_id p) ?R)"
    using take_filter_distinct [OF d, of 19 "p_id p"] by simp
  also have "\<dots> = take 20 (rev (remdups (map p_id (ps @ [p]))))"
    by (simp add: remdups_snoc rev_filter)
  finally show ?case .
qed

lemma recordings_after_save:
  assumes "rc_id rc \<noteq> ''s_list''"
  shows "recordings_list_of (cf_saveToStorage st rc) =
           take 10 (recording_summary_of rc # recordings_list_of st)"
  using assms
  by (simp add: cf_saveToStorage_def Let_def recordings_list_of_def storage_get_set)

lemma recent_after_saveProject:
  assumes "p_id p \<noteq> []"
  shows "\<exists>ids. recent_projects_of (snd (saveProject st p t_saved t_cleanup)) =
           filter (\<lambda>q. ps_id q \<notin> set ids) (recent_projects_of (updateRecentProjects st p))"
proof -
  let ?st1 = "storage_set st (''project_'' @ p_id p) (SProject (p \<lparr> p_savedAt := Some t_saved \<rparr>))"
  have "recent_projects_of (updateRecentProjects ?st1 p) = recent_projects_of (updateRecentProjects st p)"
    using recent_after_project_write [of st "p_id p" "SProject (p \<lparr> p_savedAt := Some t_saved \<rparr>)"]
    by (simp add: recent_after_update)
  then show ?thesis
    using assms recent_after_cleanup [of "updateRecentProjects ?st1 p" t_cleanup]
    by (simp add: saveProject_def Let_def)
qed

text \<open>
  What the writers of the two lists do. \<open>updateRecentProjects\<close> writes a list whose head is
  the summary of the saved project, followed by the previous entries (without an older entry
  of the same project) in their previous order, cut to 20. From an empty list, after saving
  the projects \<open>ps\<close> in turn, the ids are the last 20 distinct ids of \<open>ps\<close>, most recent
  first. \<open>saveToStorage\<close> of the recorder puts the new recording first and cuts to 10 (for a
  recording whose own key \<^verbatim>\<open>recording_${id}\<close> is not the key of the list). The cleanup at
  the end of \<open>saveProject\<close> only takes entries out of the list.
\<close>

lemma recent_list_written:
  "recent_projects_of (updateRecentProjects st p) =
     summary_of p # take 19 (filter (\<lambda>q. ps_id q \<noteq> p_id p) (recent_projects_of st)) \<and>
   length (recent_projects_of (updateRecentProjects st p)) \<le> 20 \<and>
   (recent_projects_of st = [] \<longrightarrow>
      map ps_id (recent_projects_of (foldl updateRecentProjects st ps)) =
        take 20 (rev (remdups (map p_id ps)))) \<and>
   (rc_id rc \<noteq> ''s_list'' \<longrightarrow>
      recordings_list_of (cf_saveToStorage st rc) =
        recording_summary_of rc # take 9 (recordings_list_of st)) \<and>
   (p_id p \<noteq> [] \<longrightarrow>
      (\<exists>ids. recent_projects_of (snd (saveProject st p t_saved t_cleanup)) =
         filter (\<lambda>q. ps_id q \<notin> set ids) (recent_projects_of (updateRecentProjects st p))) \<and>
      length (recent_projects_of (snd (saveProject st p t_saved t_cleanup))) \<le> 20)"
proof (intro conjI impI)
  show a: "recent_projects_of (updateRecentProjects st p) =
     summary_of p # take 19 (filter (\<lambda>q. ps_id q \<noteq> p_id p) (recent_projects_of st))"
    by (simp add: recent_after_update updated_recent_list_def)
  show b: "length (recent_projects_of (updateRecentProjects st p)) \<le> 20"
    by (simp add: recent_after_update updated_recent_list_def)
  show "map ps_id (recent_projects_of (foldl updateRecentProjects st ps)) =
        take 20 (rev (remdups (map p_id ps)))" if "recent_projects_of st = []"
    using that by (rule recent_history)
  show "recordings_list_of (cf_saveToStorage st rc) =
        recording_summary_of rc # take 9 (recordings_list_of st)" if "rc_id rc \<noteq> ''s_list''"
    using that by (simp add: recordings_after_save)
  show c: "\<exists>ids. recent_projects_of (snd (saveProject st p t_saved t_cleanup)) =
         filter (\<lambda>q. ps_id q \<notin> set ids) (recent_projects_of (updateRecentProjects st p))"
    if "p_id p \<noteq> []"
    using that by (rule recent_after_saveProject)
  show "length (recent_projects_of (snd (saveProject st p t_saved t_cleanup))) \<le> 20"
    if "p_id p \<noteq> []"
  proof -
    from c [OF that] obtain ids where
      "recent_projects_of (snd (saveProject st p t_saved t_cleanup)) =
         filter (\<lambda>q. ps_id q \<notin> set ids) (recent_projects_of (updateRecentProjects st p))" ..
    then have "length (recent_projects_of (snd (saveProject st p t_saved t_cleanup))) \<le>
               length (recent_projects_of (updateRecentProjects st p))"
      by simp
    with b show ?thesis by simp
  qed
qed

text \<open>
  C9 at a concrete input: a store that holds one project, \<open>p2\<close>, and a save of the project
  \<open>p1\<close> whose \<open>updatedAt\<close> lies more than thirty days back. \<open>updateRecentProjects\<close> puts
  \<open>p1\<close> at the head of the list. The cleanup at the end of the same \<open>saveProject\<close> finds
  \<open>p1\<close> over age and deletes it: the save answers success, the head of the list is the
  older entry \<open>p2\<close>, and the store does not hold \<open>p1\<close>.
\<close>

theorem save_of_old_project_drops_entry:
  "map ps_id (recent_projects_of store_with_project) = [''p2''] \<and>
   map ps_id (recent_projects_of (updateRecentProjects store_with_project month_old_project)) =
     [''p1'', ''p2''] \<and>
   fst (saveProject store_with_project month_old_project 2592001001 2592001001) = Inr ''p1'' \<and>
   map ps_id
     (recent_projects_of
        (snd (saveProject store_with_project month_old_project 2592001001 2592001001))) =
     [''p2''] \<and>
   storage_get (snd (saveProject store_with_project month_old_project 2592001001 2592001001))
     ''project_p1'' = None"
  by code_simp

subsection \<open>Eviction\<close>





























text \<open>
  C6 at a concrete input: the store the code itself persists for one session with one video
  blob. The project's id is \<^verbatim>\<open>project_session_1_1000\<close>, its blob is stored under
  \<^verbatim>\<open>blob_session_1_1000_0\<close>, and every reference resolves. \<open>cleanupStorage\<close> looks for the
  project id inside the blob id \<^verbatim>\<open>session_1_1000_0\<close>, does not find it, takes the blob for an
  orphan and removes it: the project that is still stored then refers to a blob that is not.
  \<open>deleteProject\<close> looks for the same id in the blob keys and so removes none of the
  project's blobs.
\<close>

theorem eviction_deletes_referenced_blob:
  "snd (snd (sw_stopRecording test_manager [] ''session_1_1000'' 11000
               (StopAck (Some [test_blob])) Sent ''1/1/2026'' 11000 no_io_error clock_12000
               12000 12000)) = persisted_store \<and>
   referenced_blob_keys persisted_store = [''blob_session_1_1000_0''] \<and>
   referential_integrity persisted_store \<and>
   getProjectIdsFromData persisted_store = [''project_session_1_1000''] \<and>
   orphanedBlobs persisted_store = [''blob_session_1_1000_0''] \<and>
   storage_keys (cleanupStorage test_browser persisted_store month_later 2592001001) =
     [''project_project_session_1_1000'', ''recent_projects'', ''cleanup_stats''] \<and>
   referenced_blob_keys (cleanupStorage test_browser persisted_store month_later 2592001001) =
     [''blob_session_1_1000_0''] \<and>
   \<not> referential_integrity (cleanupStorage test_browser persisted_store month_later 2592001001) \<and>
   storage_keys (deleteProject persisted_store ''project_session_1_1000'') =
     [''blob_session_1_1000_0'', ''recent_projects'']"
  by code_simp




end
